theory Spec2Isabelle
  imports Main "HOL-Library.AList" "HOL-Library.Sublist"
begin

section \<open>The interactive shell of \<^verbatim>\<open>lib/interactive.py\<close>\<close>

text \<open>
  The shell tokenizes a line with \<^verbatim>\<open>shlex.split\<close>, looks the first token up in
  the table \<^verbatim>\<open>COMMANDS\<close>, checks the number of arguments and calls the executor.
  \<^verbatim>\<open>complete\<close> computes the candidates of the token under the cursor and their
  common prefix. The symbol command keeps two dictionaries, \<^verbatim>\<open>symbols\<close> and
  \<^verbatim>\<open>reverse_symbols\<close>, and raises the flag \<^verbatim>\<open>database_modified\<close>.

  Python strings are modelled as \<^typ>\<open>string\<close>, one \<^typ>\<open>char\<close> per code point (code
  points below 256), Python integers as \<^typ>\<open>int\<close>, a dictionary as an association list
  with distinct keys in insertion order (\<^const>\<open>AList.update\<close> is \<^verbatim>\<open>d[k] = v\<close>,
  \<^const>\<open>AList.delete\<close> is \<^verbatim>\<open>del d[k]\<close> once the key is known to be there), and a
  raised exception as the left injection of a sum.
\<close>

subsection \<open>Python library functions\<close>

datatype exn = IndexError | KeyError | ValueError | AttributeError | FileNotFoundError | OSError

text \<open>\<^verbatim>\<open>s.startswith(p)\<close>.\<close>

definition startswith :: "string \<Rightarrow> string \<Rightarrow> bool" where
  "startswith s p = (take (length p) s = p)"

text \<open>
  \<^verbatim>\<open>shlex.split(line)\<close>: the POSIX mode of \<^verbatim>\<open>shlex.shlex\<close> with
  \<^verbatim>\<open>whitespace_split\<close> set and no comment characters. The lexer state of
  \<^verbatim>\<open>read_token\<close> is \<^verbatim>\<open>' '\<close> (between tokens), \<^verbatim>\<open>'a'\<close> (inside a word), a
  quote character, or the escape character together with \<^verbatim>\<open>escapedstate\<close>, the state
  to return to.
\<close>

datatype lex_state = Lex_space | Lex_word | Lex_quote char | Lex_escape lex_state

definition shlex_whitespace :: "char \<Rightarrow> bool" where
  "shlex_whitespace c = (c = CHR '' '' \<or> c = CHR 0x09 \<or> c = CHR 0x0D \<or> c = CHR 0x0A)"

definition shlex_quotes :: "char \<Rightarrow> bool" where
  "shlex_quotes c = (c = CHR 0x27 \<or> c = CHR 0x22)"

definition shlex_escape :: "char \<Rightarrow> bool" where
  "shlex_escape c = (c = CHR 0x5C)"

text \<open>
  \<open>read_tokens state token quoted input\<close> runs \<^verbatim>\<open>read_token\<close> until the end of the
  input and collects the tokens. A token is emitted when it is non-empty or was quoted;
  an unclosed quotation and a trailing escape raise \<^verbatim>\<open>ValueError\<close>.
\<close>

fun read_tokens :: "lex_state \<Rightarrow> string \<Rightarrow> bool \<Rightarrow> string \<Rightarrow> exn + string list" where
  "read_tokens Lex_space token quoted [] = Inr []"
| "read_tokens Lex_space token quoted (c # cs) =
     (if shlex_whitespace c then read_tokens Lex_space token quoted cs
      else if shlex_escape c then read_tokens (Lex_escape Lex_word) token quoted cs
      else if shlex_quotes c then read_tokens (Lex_quote c) token quoted cs
      else read_tokens Lex_word [c] quoted cs)"
| "read_tokens (Lex_quote q) token quoted [] = Inl ValueError"
| "read_tokens (Lex_quote q) token quoted (c # cs) =
     (if c = q then read_tokens Lex_word token True cs
      else if shlex_escape c \<and> q = CHR 0x22
        then read_tokens (Lex_escape (Lex_quote q)) token True cs
      else read_tokens (Lex_quote q) (token @ [c]) True cs)"
| "read_tokens (Lex_escape escapedstate) token quoted [] = Inl ValueError"
| "read_tokens (Lex_escape escapedstate) token quoted (c # cs) =
     (case escapedstate of
        Lex_quote q \<Rightarrow>
          read_tokens escapedstate
            (if c \<noteq> CHR 0x5C \<and> c \<noteq> q then token @ [CHR 0x5C, c] else token @ [c])
            quoted cs
      | _ \<Rightarrow> read_tokens escapedstate (token @ [c]) quoted cs)"
| "read_tokens Lex_word token quoted [] =
     (if token \<noteq> [] \<or> quoted then Inr [token] else Inr [])"
| "read_tokens Lex_word token quoted (c # cs) =
     (if shlex_whitespace c then
        (if token \<noteq> [] \<or> quoted then
           (case read_tokens Lex_space [] False cs of
              Inl e \<Rightarrow> Inl e
            | Inr ts \<Rightarrow> Inr (token # ts))
         else read_tokens Lex_space token quoted cs)
      else if shlex_quotes c then read_tokens (Lex_quote c) token quoted cs
      else if shlex_escape c then read_tokens (Lex_escape Lex_word) token quoted cs
      else read_tokens Lex_word (token @ [c]) quoted cs)"

definition shlex_split :: "string \<Rightarrow> exn + string list" where
  "shlex_split line = read_tokens Lex_space [] False line"

text \<open>
  \<^verbatim>\<open>int(s, 16)\<close>: surrounding whitespace is stripped, a sign and the prefix
  \<^verbatim>\<open>0x\<close> are optional, one underscore may follow the prefix and single underscores
  may separate digits; anything else raises \<^verbatim>\<open>ValueError\<close> (\<open>None\<close> here).
  The whitespace that is stripped is the code points 9 to 13, 32, 133 and 160; the
  separators 28 to 31, which \<^verbatim>\<open>str.isspace\<close> accepts, are not stripped and make
  the text invalid.
\<close>

definition py_isspace :: "char \<Rightarrow> bool" where
  "py_isspace c =
     (let n = (of_char c :: nat)
      in (9 \<le> n \<and> n \<le> 13) \<or> n = 32 \<or> n = 133 \<or> n = 160)"

definition digit_value :: "char \<Rightarrow> nat option" where
  "digit_value c =
     (let n = (of_char c :: nat)
      in if 48 \<le> n \<and> n \<le> 57 then Some (n - 48)
         else if 97 \<le> n \<and> n \<le> 102 then Some (n - 87)
         else if 65 \<le> n \<and> n \<le> 70 then Some (n - 55)
         else None)"

text \<open>
  The digit loop: \<open>prev\<close> is the character read last, \<open>v\<close> the value so far and
  \<open>n\<close> the number of digits. It stops at the first character that is neither a digit
  below sixteen nor an underscore, and fails on a doubled or trailing underscore.
\<close>

fun scan_digits :: "char \<Rightarrow> int \<Rightarrow> nat \<Rightarrow> string \<Rightarrow> (int \<times> nat \<times> string) option" where
  "scan_digits prev v n [] = (if prev = CHR ''_'' then None else Some (v, n, []))"
| "scan_digits prev v n (c # cs) =
     (if c = CHR ''_'' then (if prev = CHR ''_'' then None else scan_digits c v n cs)
      else (case digit_value c of
              Some d \<Rightarrow> scan_digits c (16 * v + int d) (Suc n) cs
            | None \<Rightarrow> (if prev = CHR ''_'' then None else Some (v, n, c # cs))))"

definition skip_sign :: "string \<Rightarrow> bool \<times> string" where
  "skip_sign s =
     (case s of
        c # r \<Rightarrow> (if c = CHR ''+'' then (False, r)
                  else if c = CHR ''-'' then (True, r) else (False, s))
      | [] \<Rightarrow> (False, s))"

definition skip_prefix16 :: "string \<Rightarrow> string" where
  "skip_prefix16 s =
     (case s of
        z # x # r \<Rightarrow>
          (if z = CHR ''0'' \<and> (x = CHR ''x'' \<or> x = CHR ''X'')
           then (case r of u # r' \<Rightarrow> (if u = CHR ''_'' then r' else r) | [] \<Rightarrow> r)
           else s)
      | _ \<Rightarrow> s)"

definition py_int16 :: "string \<Rightarrow> int option" where
  "py_int16 s =
     (let (neg, s2) = skip_sign (dropWhile py_isspace s);
          s3 = skip_prefix16 s2
      in if startswith s3 ''_'' then None
         else (case scan_digits (CHR 0x00) 0 0 s3 of
                 None \<Rightarrow> None
               | Some (v, n, rest) \<Rightarrow>
                   (if n = 0 then None
                    else if dropWhile py_isspace rest \<noteq> [] then None
                    else Some (if neg then - v else v))))"

text \<open>\<^verbatim>\<open>"%d" % n\<close> for a non-negative \<open>n\<close>.\<close>

fun digits10 :: "nat \<Rightarrow> nat \<Rightarrow> string" where
  "digits10 0 n = []"
| "digits10 (Suc fuel) n =
     (if n < 10 then [''0123456789'' ! n]
      else digits10 fuel (n div 10) @ [''0123456789'' ! (n mod 10)])"

definition format_d :: "nat \<Rightarrow> string" where
  "format_d n = digits10 (Suc n) n"

subsection \<open>Session state, commands and the outside world\<close>

text \<open>
  \<^verbatim>\<open>ctx.dis\<close> is \<^verbatim>\<open>None\<close> until a binary is loaded; its \<^verbatim>\<open>binary\<close> owns the two
  symbol dictionaries. The other fields are the attributes of \<^verbatim>\<open>ctx\<close>, of the
  line editor (\<^verbatim>\<open>rl.history\<close>) and of the shell (\<^verbatim>\<open>database_modified\<close>) that the
  functions below read or write.
\<close>

record binary =
  symbols :: "(string \<times> int) list"
  reverse_symbols :: "(int \<times> string) list"

record session =
  dis :: "binary option"
  sectionsname :: bool
  comments :: bool
  db_path :: string
  history :: "string list"
  database_modified :: bool

text \<open>
  What a command shows or writes: a message of \<^verbatim>\<open>error(txt)\<close>, a line of
  \<^verbatim>\<open>print\<close>, a listing by \<^verbatim>\<open>dis.print_symbols\<close> (its arguments), the database
  file opened for writing (and so emptied), and the record written to it.
\<close>

datatype event =
    Error string
  | Print string
  | Print_symbols bool "string option"
  | Db_truncated string
  | Db_written string "(string \<times> int) list" "string list"

text \<open>How a call ends: it returns, raises, or \<^verbatim>\<open>sys.exit(n)\<close> ends the process.\<close>

datatype control = Returned | Raised exn | SysExit int

type_synonym result = "session \<times> event list \<times> control"

datatype executor =
    Exec_help | Exec_save | Exec_load | Exec_lrawx86 | Exec_lrawx64 | Exec_lrawarm
  | Exec_lrawmips | Exec_lrawmips64 | Exec_x | Exec_data | Exec_dump | Exec_sym
  | Exec_calls | Exec_exit | Exec_sections | Exec_info
  | Exec_display_print_section | Exec_display_print_comments

datatype completer = Complete_load | Complete_x

text \<open>The class \<^verbatim>\<open>Command\<close>, without its help text \<^verbatim>\<open>desc\<close>.\<close>

record command =
  max_args :: nat
  callback_exec :: "executor option"
  callback_complete :: "completer option"

definition Command :: "nat \<Rightarrow> executor option \<Rightarrow> completer option \<Rightarrow> command" where
  "Command m e c = \<lparr>max_args = m, callback_exec = e, callback_complete = c\<rparr>"

text \<open>
  The file system and the collaborators of the shell: \<^verbatim>\<open>os.listdir\<close>,
  \<^verbatim>\<open>os.path.isdir\<close>, whether \<^verbatim>\<open>open(path, "w+")\<close> succeeds, and the executors
  whose bodies drive the loader, the disassembler and the line editor
  (\<^verbatim>\<open>help\<close>, the load family, \<^verbatim>\<open>x\<close>, \<^verbatim>\<open>da\<close> to \<^verbatim>\<open>dq\<close>, \<^verbatim>\<open>dump\<close>,
  \<^verbatim>\<open>calls\<close>, \<^verbatim>\<open>sections\<close>, \<^verbatim>\<open>info\<close>).
\<close>

record env =
  listdir :: "string \<Rightarrow> exn + string list"
  isdir :: "string \<Rightarrow> bool"
  open_db :: "string \<Rightarrow> bool"
  collaborator :: "executor \<Rightarrow> string list \<Rightarrow> session \<Rightarrow> result"

definition MAX_PRINT_COMPLETE :: nat where
  "MAX_PRINT_COMPLETE = 80"

definition COMMANDS_ALPHA :: "string list" where
  "COMMANDS_ALPHA =
     [''calls'', ''da'', ''db'', ''dd'', ''dw'', ''dq'', ''dump'', ''exit'', ''help'',
      ''info'', ''load'', ''lrawarm'', ''lrawmips'', ''lrawmips64'', ''lrawx86'',
      ''lrawx64'', ''save'', ''sections'', ''sym'', ''x'', ''display.print_section'',
      ''display.print_comments'']"

definition COMMANDS_table :: "(string \<times> command) list" where
  "COMMANDS_table =
     [(''help'', Command 0 (Some Exec_help) None),
      (''save'', Command 0 (Some Exec_save) None),
      (''load'', Command 1 (Some Exec_load) (Some Complete_load)),
      (''lrawx86'', Command 1 (Some Exec_lrawx86) (Some Complete_load)),
      (''lrawx64'', Command 1 (Some Exec_lrawx64) (Some Complete_load)),
      (''lrawarm'', Command 1 (Some Exec_lrawarm) (Some Complete_load)),
      (''lrawmips'', Command 1 (Some Exec_lrawmips) (Some Complete_load)),
      (''lrawmips64'', Command 1 (Some Exec_lrawmips64) (Some Complete_load)),
      (''x'', Command 1 (Some Exec_x) (Some Complete_x)),
      (''da'', Command 2 (Some Exec_data) (Some Complete_x)),
      (''db'', Command 2 (Some Exec_data) (Some Complete_x)),
      (''dd'', Command 2 (Some Exec_data) (Some Complete_x)),
      (''dw'', Command 2 (Some Exec_data) (Some Complete_x)),
      (''dq'', Command 2 (Some Exec_data) (Some Complete_x)),
      (''dump'', Command 2 (Some Exec_dump) (Some Complete_x)),
      (''set'', Command 3 None None),
      (''sym'', Command 3 (Some Exec_sym) (Some Complete_x)),
      (''calls'', Command 1 (Some Exec_calls) (Some Complete_x)),
      (''exit'', Command 0 (Some Exec_exit) None),
      (''sections'', Command 0 (Some Exec_sections) None),
      (''info'', Command 0 (Some Exec_info) None),
      (''display.print_section'', Command 0 (Some Exec_display_print_section) None),
      (''display.print_comments'', Command 0 (Some Exec_display_print_comments) None)]"

definition COMMANDS :: "string \<Rightarrow> command option" where
  "COMMANDS = map_of COMMANDS_table"

subsection \<open>Executors\<close>

text \<open>\<^verbatim>\<open>error(txt)\<close> of \<^verbatim>\<open>lib.utils\<close> shows one message; the caller then returns.\<close>

definition error :: "string \<Rightarrow> session \<Rightarrow> result" where
  "error txt st = (st, [Error txt], Returned)"

text \<open>
  The \<^verbatim>\<open>try\<close> block of \<^verbatim>\<open>__exec_sym\<close>. \<^verbatim>\<open>int(args[2], 16)\<close> may raise before
  anything is written; \<^verbatim>\<open>del reverse_symbols[last]\<close> raises \<^verbatim>\<open>KeyError\<close> when the
  old address has no reverse entry, after the flag was raised. The bare
  \<^verbatim>\<open>except\<close> turns both into the same message.
\<close>

definition save_symbol :: "string \<Rightarrow> string \<Rightarrow> binary \<Rightarrow> session \<Rightarrow> result" where
  "save_symbol name addr_txt b st =
     (case py_int16 addr_txt of
        None \<Rightarrow> error ''there was an error when creating a symbol'' st
      | Some addr \<Rightarrow>
          (let st1 = st\<lparr>database_modified := True\<rparr>
           in case map_of (symbols b) name of
                Some last_addr \<Rightarrow>
                  (if map_of (reverse_symbols b) last_addr = None
                   then error ''there was an error when creating a symbol'' st1
                   else (st1\<lparr>dis := Some (b\<lparr>
                           symbols := AList.update name addr (symbols b),
                           reverse_symbols :=
                             AList.update addr name (AList.delete last_addr (reverse_symbols b))\<rparr>)\<rparr>,
                         [], Returned))
              | None \<Rightarrow>
                  (st1\<lparr>dis := Some (b\<lparr>
                     symbols := AList.update name addr (symbols b),
                     reverse_symbols := AList.update addr name (reverse_symbols b)\<rparr>)\<rparr>,
                   [], Returned)))"

definition exec_sym :: "string list \<Rightarrow> session \<Rightarrow> result" where
  "exec_sym args st =
     (case dis st of
        None \<Rightarrow> error ''load a file before'' st
      | Some b \<Rightarrow>
          (case args of
             [] \<Rightarrow> (st, [], Raised IndexError)
           | [a0] \<Rightarrow> (st, [Print_symbols (sectionsname st) None], Returned)
           | a0 # a1 # rest \<Rightarrow>
               (case a1 of
                  [] \<Rightarrow> (st, [], Raised IndexError)
                | c # cs \<Rightarrow>
                    (if c = CHR ''|'' then
                       (if length args = 2 \<or> length args > 3
                        then error ''bad arguments (warn: need spaces between |)'' st
                        else (st, [Print_symbols (sectionsname st) (Some (args ! 2))],
                              Returned))
                     else if length args > 3 then error ''bad arguments'' st
                     else if length args = 2
                       then error ''an address is required to save the symbol'' st
                     else if \<not> startswith (args ! 2) ''0x''
                       then error ''the address should starts with 0x'' st
                     else save_symbol a1 (args ! 2) b st))))"

definition exec_exit :: "string list \<Rightarrow> session \<Rightarrow> result" where
  "exec_exit args st = (st, [], SysExit 0)"

text \<open>
  \<^verbatim>\<open>__exec_save\<close>: the file is opened first, then the dictionary is read through
  \<^verbatim>\<open>ctx.dis\<close>, which raises \<^verbatim>\<open>AttributeError\<close> when nothing is loaded.
\<close>

definition exec_save :: "env \<Rightarrow> string list \<Rightarrow> session \<Rightarrow> result" where
  "exec_save e args st =
     (if \<not> open_db e (db_path st) then (st, [], Raised OSError)
      else (case dis st of
              None \<Rightarrow> (st, [Db_truncated (db_path st)], Raised AttributeError)
            | Some b \<Rightarrow>
                (st\<lparr>database_modified := False\<rparr>,
                 [Db_written (db_path st) (symbols b) (history st),
                  Print (''database saved to '' @ db_path st)],
                 Returned)))"

definition exec_display_print_section :: "string list \<Rightarrow> session \<Rightarrow> result" where
  "exec_display_print_section args st =
     (if sectionsname st
      then (st\<lparr>sectionsname := False\<rparr>, [Print ''now it's off''], Returned)
      else (st\<lparr>sectionsname := True\<rparr>, [Print ''now it's on''], Returned))"

definition exec_display_print_comments :: "string list \<Rightarrow> session \<Rightarrow> result" where
  "exec_display_print_comments args st =
     (if comments st
      then (st\<lparr>comments := False\<rparr>, [Print ''now it's off''], Returned)
      else (st\<lparr>comments := True\<rparr>, [Print ''now it's on''], Returned))"

text \<open>\<^verbatim>\<open>c.callback_exec(args)\<close>.\<close>

definition call_exec :: "env \<Rightarrow> executor \<Rightarrow> string list \<Rightarrow> session \<Rightarrow> result" where
  "call_exec e f args st =
     (case f of
        Exec_sym \<Rightarrow> exec_sym args st
      | Exec_save \<Rightarrow> exec_save e args st
      | Exec_exit \<Rightarrow> exec_exit args st
      | Exec_display_print_section \<Rightarrow> exec_display_print_section args st
      | Exec_display_print_comments \<Rightarrow> exec_display_print_comments args st
      | _ \<Rightarrow> collaborator e f args st)"

subsection \<open>Dispatch\<close>

text \<open>
  \<^verbatim>\<open>exec_command\<close>. \<^verbatim>\<open>shlex.split\<close> may raise, and \<^verbatim>\<open>args[0]\<close> raises
  \<^verbatim>\<open>IndexError\<close> on an empty token list; neither is caught here.
\<close>

definition exec_command :: "env \<Rightarrow> string \<Rightarrow> session \<Rightarrow> result" where
  "exec_command e line st =
     (case shlex_split line of
        Inl x \<Rightarrow> (st, [], Raised x)
      | Inr args \<Rightarrow>
          (case args of
             [] \<Rightarrow> (st, [], Raised IndexError)
           | a0 # as \<Rightarrow>
               (case COMMANDS a0 of
                  None \<Rightarrow> error ''unknown command'' st
                | Some c \<Rightarrow>
                    (if length args - 1 > max_args c
                     then error (a0 @ '' takes max '' @ format_d (max_args c) @ '' args'') st
                     else (case callback_exec c of
                             None \<Rightarrow> (st, [], Returned)
                           | Some f \<Rightarrow> call_exec e f args st)))))"


subsection \<open>The symbol table as a bijection\<close>






subsection \<open>The read loop and the exit guard\<close>

text \<open>
  Modelled from the spec: \<^verbatim>\<open>ReadLine.loop\<close> of \<^verbatim>\<open>lib/readline.py\<close> is not among the
  sources. It is the blocking read-and-dispatch cycle of the input component: each
  submitted line goes to \<^verbatim>\<open>exec_command\<close>, a line dispatched without an exception
  is appended to the history, and the cycle returns at the end of the input. An
  exception or \<^verbatim>\<open>sys.exit\<close> of a command passes through it.
\<close>

fun rl_loop :: "env \<Rightarrow> string list \<Rightarrow> session \<Rightarrow> result" where
  "rl_loop e [] st = (st, [], Returned)"
| "rl_loop e (line # lines) st =
     (case exec_command e line st of
        (st1, out1, Returned) \<Rightarrow>
          (case rl_loop e lines (st1\<lparr>history := history st1 @ [line]\<rparr>) of
             (st2, out2, c) \<Rightarrow> (st2, out1 @ out2, c))
      | r \<Rightarrow> r)"

text \<open>
  The \<^verbatim>\<open>while 1\<close> loop at the end of \<^verbatim>\<open>Interactive.__init__\<close>, run on a script:
  one list of lines for each call of \<^verbatim>\<open>rl.loop()\<close>, each ended by the end of input.
  The shell is still \<open>Running\<close> when the script is used up (it blocks in
  \<^verbatim>\<open>rl.loop()\<close>), \<open>Terminated\<close> after the \<^verbatim>\<open>break\<close>, \<open>Exited\<close> after
  \<^verbatim>\<open>sys.exit\<close>, and \<open>Crashed\<close> when an exception left the loop.
\<close>

datatype repl_state = Running | Terminated | Exited int | Crashed exn

fun repl :: "env \<Rightarrow> string list list \<Rightarrow> session \<Rightarrow> session \<times> event list \<times> repl_state" where
  "repl e [] st = (st, [], Running)"
| "repl e (lines # script) st =
     (case rl_loop e lines st of
        (st1, out1, Returned) \<Rightarrow>
          (if \<not> database_modified st1 then (st1, out1, Terminated)
           else (case repl e script st1 of
                   (st2, out2, r) \<Rightarrow>
                     (st2,
                      out1 @ [Print ''the database was modified, run save or exit to force'']
                        @ out2,
                      r)))
      | (st1, out1, SysExit n) \<Rightarrow> (st1, out1, Exited n)
      | (st1, out1, Raised x) \<Rightarrow> (st1, out1, Crashed x))"

subsection \<open>Completion\<close>

text \<open>
  The three candidate loops of \<^verbatim>\<open>complete\<close>, \<^verbatim>\<open>__complete_load\<close> and
  \<^verbatim>\<open>__find_symbol\<close> have one shape: every matching item appends its remainder to
  \<^verbatim>\<open>comp\<close> (here \<open>cands\<close>) and increments \<^verbatim>\<open>i\<close>, and the loop gives up with
  \<^verbatim>\<open>None\<close> as soon as \<^verbatim>\<open>i == MAX_PRINT_COMPLETE\<close>. \<open>f\<close> is the test and the
  remainder of one item.
\<close>

fun collect_capped ::
  "nat \<Rightarrow> ('a \<Rightarrow> string option) \<Rightarrow> 'a list \<Rightarrow> string list \<Rightarrow> nat \<Rightarrow> string list option" where
  "collect_capped cap f [] cands i = Some cands"
| "collect_capped cap f (x # xs) cands i =
     (case f x of
        None \<Rightarrow> collect_capped cap f xs cands i
      | Some s \<Rightarrow>
          (if i + 1 = cap then None
           else collect_capped cap f xs (cands @ [s]) (i + 1)))"

text \<open>\<^verbatim>\<open>os.path.basename\<close>, \<^verbatim>\<open>os.path.dirname\<close> and \<^verbatim>\<open>os.path.join\<close> of \<^verbatim>\<open>posixpath\<close>.\<close>

definition rfind_slash_next :: "string \<Rightarrow> nat" where
  "rfind_slash_next p = length p - length (takeWhile (\<lambda>c. c \<noteq> CHR ''/'') (rev p))"

definition os_path_basename :: "string \<Rightarrow> string" where
  "os_path_basename p = drop (rfind_slash_next p) p"

definition os_path_dirname :: "string \<Rightarrow> string" where
  "os_path_dirname p =
     (let head = take (rfind_slash_next p) p
      in if head \<noteq> [] \<and> head \<noteq> replicate (length head) (CHR ''/'')
         then rev (dropWhile (\<lambda>c. c = CHR ''/'') (rev head))
         else head)"

definition os_path_join :: "string \<Rightarrow> string \<Rightarrow> string" where
  "os_path_join a b =
     (if startswith b ''/'' then b
      else if a = [] \<or> last a = CHR ''/'' then a @ b
      else a @ ''/'' @ b)"

text \<open>\<^verbatim>\<open>f.replace(" ", "\\ ")\<close>.\<close>

definition backslash_spaces :: "string \<Rightarrow> string" where
  "backslash_spaces f = concat (map (\<lambda>c. if c = CHR '' '' then [CHR 0x5C, c] else [c]) f)"

definition complete_load :: "env \<Rightarrow> string \<Rightarrow> nat \<Rightarrow> string \<Rightarrow> exn + string list option" where
  "complete_load e tmp_line nth_arg last_tok =
     (if nth_arg \<noteq> 1 then Inr (Some [])
      else
        (let basename = os_path_basename last_tok;
             dirname0 = os_path_dirname last_tok;
             dirname = (if dirname0 = [] then ''.'' else dirname0)
         in case listdir e dirname of
              Inl x \<Rightarrow> (if x = FileNotFoundError then Inr (Some []) else Inl x)
            | Inr fs \<Rightarrow>
                Inr (collect_capped MAX_PRINT_COMPLETE
                      (\<lambda>f. if startswith f basename
                           then Some (drop (length basename)
                                  (backslash_spaces f @
                                   (if isdir e (os_path_join dirname f) then ''/'' else '' '')))
                           else None)
                      fs [] 0)))"

definition find_symbol :: "string \<Rightarrow> nat \<Rightarrow> string \<Rightarrow> binary \<Rightarrow> string list option" where
  "find_symbol tmp_line nth_arg last_tok b =
     collect_capped MAX_PRINT_COMPLETE
       (\<lambda>sym. if startswith sym last_tok
               then Some (drop (length last_tok) (sym @ '' '')) else None)
       (map fst (symbols b)) [] 0"

definition complete_x :: "string \<Rightarrow> nat \<Rightarrow> string \<Rightarrow> session \<Rightarrow> string list option" where
  "complete_x tmp_line nth_arg last_tok st =
     (if nth_arg \<noteq> 1 \<or> dis st = None then Some []
      else (case dis st of
              Some b \<Rightarrow> find_symbol tmp_line nth_arg last_tok b
            | None \<Rightarrow> Some []))"

text \<open>\<^verbatim>\<open>f(tmp_line, len(tokens)-1, last_tok)\<close> for the completer \<open>f\<close> of a command.\<close>

definition call_complete ::
  "env \<Rightarrow> completer \<Rightarrow> string \<Rightarrow> nat \<Rightarrow> string \<Rightarrow> session \<Rightarrow> exn + string list option" where
  "call_complete e f tmp_line nth_arg last_tok st =
     (case f of
        Complete_load \<Rightarrow> complete_load e tmp_line nth_arg last_tok
      | Complete_x \<Rightarrow> Inr (complete_x tmp_line nth_arg last_tok st))"

text \<open>
  The common prefix, lines 377 to 396. \<^verbatim>\<open>words_idx\<close> is first the dictionary from
  each length to the last index of a candidate of that length, which gives \<^verbatim>\<open>ref\<close>,
  the index of a shortest candidate; then it is the set of the other indices (visited
  here in ascending order). \<^verbatim>\<open>comp[j][i]\<close> raises \<^verbatim>\<open>IndexError\<close> out of range.
\<close>

definition words_idx :: "string list \<Rightarrow> (nat \<times> nat) list" where
  "words_idx cands =
     fold (\<lambda>(i, word) d. AList.update (length word) i d) (enumerate 0 cands) []"

fun all_have_char :: "string list \<Rightarrow> nat list \<Rightarrow> nat \<Rightarrow> char \<Rightarrow> exn + bool" where
  "all_have_char cands [] i ch = Inr True"
| "all_have_char cands (j # js) i ch =
     (if length cands \<le> j then Inl IndexError
      else if length (cands ! j) \<le> i then Inl IndexError
      else if cands ! j ! i \<noteq> ch then Inr False
      else all_have_char cands js i ch)"

fun common_loop :: "string list \<Rightarrow> nat list \<Rightarrow> nat \<Rightarrow> string \<Rightarrow> string \<Rightarrow> exn + string" where
  "common_loop cands js i [] common = Inr common"
| "common_loop cands js i (ch # rest) common =
     (case all_have_char cands js i ch of
        Inl x \<Rightarrow> Inl x
      | Inr found \<Rightarrow>
          (if \<not> found then Inr common
           else common_loop cands js (i + 1) rest (common @ [ch])))"

definition common_prefix :: "string list \<Rightarrow> exn + string" where
  "common_prefix cands =
     (let d = words_idx cands
      in if d = [] then Inl ValueError
         else
           (let min_len = min_list (map fst d)
            in case map_of d min_len of
                 None \<Rightarrow> Inl KeyError
               | Some ref \<Rightarrow>
                   (if ref \<notin> set [0..<length cands] then Inl KeyError
                    else common_loop cands (remove1 ref [0..<length cands]) 0 (cands ! ref) [])))"

text \<open>
  \<^verbatim>\<open>complete\<close>, in two parts. \<open>candidates\<close> is the body up to line 368: the
  tokens of the line with the sentinel appended, \<^verbatim>\<open>last_tok\<close>, and the list
  \<^verbatim>\<open>comp\<close>, which is \<^verbatim>\<open>None\<close> when a loop gave up. An unknown first token
  (\<^verbatim>\<open>KeyError\<close>, caught) and a command without completer leave the list empty.
\<close>

definition candidates :: "env \<Rightarrow> string \<Rightarrow> session \<Rightarrow> exn + string list option \<times> string" where
  "candidates e line st =
     (case shlex_split (line @ ''_'') of
        Inl x \<Rightarrow> Inl x
      | Inr tokens \<Rightarrow>
          (if tokens = [] then Inl IndexError
           else
             (let last_tok = butlast (last tokens);
                  tmp_line = line
              in if length tokens = 1 then
                   Inr (collect_capped MAX_PRINT_COMPLETE
                          (\<lambda>cmd. if startswith cmd last_tok
                                 then Some (drop (length last_tok) cmd @ '' '') else None)
                          COMMANDS_ALPHA [] 0,
                        last_tok)
                 else
                   (case COMMANDS (hd tokens) of
                      None \<Rightarrow> Inr (Some [], last_tok)
                    | Some c \<Rightarrow>
                        (case callback_complete c of
                           None \<Rightarrow> Inr (Some [], last_tok)
                         | Some f \<Rightarrow>
                             (case call_complete e f tmp_line (length tokens - 1) last_tok st of
                                Inl x \<Rightarrow> Inl x
                              | Inr r \<Rightarrow> Inr (r, last_tok)))))))"

text \<open>
  The rest of \<^verbatim>\<open>complete\<close>: the notice and three times \<^verbatim>\<open>None\<close> when a loop gave
  up; no common prefix for at most one candidate; the common prefix otherwise. The
  result is the returned tuple together with what was printed.
\<close>

type_synonym completion = "string list option \<times> string option \<times> string option"

definition complete :: "env \<Rightarrow> string \<Rightarrow> session \<Rightarrow> exn + event list \<times> completion" where
  "complete e line st =
     (case candidates e line st of
        Inl x \<Rightarrow> Inl x
      | Inr (None, last_tok) \<Rightarrow>
          Inr ([Print (CHR 0x0A # ''too much possibilities'')], (None, None, None))
      | Inr (Some cands, last_tok) \<Rightarrow>
          (if length cands \<le> 1 then Inr ([], (Some cands, Some last_tok, None))
           else (case common_prefix cands of
                   Inl x \<Rightarrow> Inl x
                 | Inr common \<Rightarrow> Inr ([], (Some cands, Some last_tok, Some common)))))"

subsection \<open>An example environment and session\<close>

text \<open>
  A directory with two entries, a database that can be written, collaborators that do
  nothing, a loaded binary without symbols, and a binary with the eighty symbols
  \<^verbatim>\<open>a\<close>, \<^verbatim>\<open>aa\<close>, \<^verbatim>\<open>aaa\<close> and so on.
\<close>

definition example_env :: env where
  "example_env =
     \<lparr>listdir = (\<lambda>d. if d = ''.'' then Inr [''a.out'', ''src''] else Inl FileNotFoundError),
      isdir = (\<lambda>p. p = ''./src''),
      open_db = (\<lambda>p. True),
      collaborator = (\<lambda>f args st. (st, [], Returned))\<rparr>"

definition example_binary80 :: binary where
  "example_binary80 =
     \<lparr>symbols = map (\<lambda>n. (replicate (Suc n) (CHR ''a''), int n)) [0..<80],
      reverse_symbols = map (\<lambda>n. (int n, replicate (Suc n) (CHR ''a''))) [0..<80]\<rparr>"

definition example_session :: session where
  "example_session =
     \<lparr>dis = Some \<lparr>symbols = [], reverse_symbols = []\<rparr>,
      sectionsname = True, comments = True, db_path = ''a.out.db'', history = [],
      database_modified = False\<rparr>"

section \<open>Properties\<close>

lemmas shlex_defs = shlex_split_def shlex_whitespace_def shlex_quotes_def shlex_escape_def

lemmas int16_defs = py_int16_def skip_sign_def skip_prefix16_def startswith_def digit_value_def
  py_isspace_def

lemmas table_defs = COMMANDS_def COMMANDS_table_def Command_def

lemma format_d_small: "n < 10 \<Longrightarrow> format_d n = [''0123456789'' ! n]"
  by (simp add: format_d_def)

subsection \<open>Dispatch\<close>

text \<open>
  C4 (blank input). The claim says that a line without tokens makes
  \<^verbatim>\<open>exec_command\<close> return silently. The code reads \<^verbatim>\<open>args[0]\<close> without a test for
  the empty list: on the empty line and on a line of one space it raises
  \<^verbatim>\<open>IndexError\<close>. The session is unchanged and nothing is printed.
\<close>

theorem blank_line_raises:
  "exec_command e [] st = (st, [], Raised IndexError) \<and>
   exec_command e '' '' st = (st, [], Raised IndexError)"
  by (simp add: exec_command_def shlex_defs)

text \<open>
  C5 (exact \<^verbatim>\<open>max_args\<close>). For a line whose first token is a registered command,
  more arguments than \<^verbatim>\<open>max_args\<close> give the message
  \<^verbatim>\<open><cmd> takes max <N> args\<close> and an unchanged session, whatever the executor
  would do; with at most \<^verbatim>\<open>max_args\<close> arguments the result is that of the executor
  (nothing, for a command without one).
\<close>

theorem exec_command_max_args:
  assumes "shlex_split line = Inr (cmd # args)" and "COMMANDS cmd = Some c"
  shows "(max_args c < length args \<longrightarrow>
            exec_command e line st =
              (st, [Error (cmd @ '' takes max '' @ format_d (max_args c) @ '' args'')], Returned))
       \<and> (length args \<le> max_args c \<longrightarrow>
            exec_command e line st =
              (case callback_exec c of
                 None \<Rightarrow> (st, [], Returned)
               | Some f \<Rightarrow> call_exec e f (cmd # args) st))"
  using assms by (simp add: exec_command_def error_def)

theorem exec_command_max_args_witness:
  "shlex_split ''dump main 10 20'' = Inr (''dump'' # [''main'', ''10'', ''20''])
   \<and> COMMANDS ''dump'' = Some (Command 2 (Some Exec_dump) (Some Complete_x))
   \<and> exec_command example_env ''dump main 10 20'' example_session =
        (example_session, [Error ''dump takes max 2 args''], Returned)"
proof -
  have t: "shlex_split ''dump main 10 20'' = Inr (''dump'' # [''main'', ''10'', ''20''])"
    by (simp add: shlex_defs)
  have c: "COMMANDS ''dump'' = Some (Command 2 (Some Exec_dump) (Some Complete_x))"
    by (simp add: table_defs)
  show ?thesis
    using exec_command_max_args [OF t c, of example_env example_session] t c
    by (simp add: Command_def format_d_small)
qed

subsection \<open>The symbol command\<close>

lemma exec_sym_three:
  assumes "name \<noteq> []" and "hd name \<noteq> CHR ''|''" and "dis st = Some b"
  shows "exec_sym [cmd, name, addr] st =
           (if \<not> startswith addr ''0x'' then error ''the address should starts with 0x'' st
            else save_symbol name addr b st)"
  using assms by (cases name) (simp_all add: exec_sym_def)

lemma exec_command_sym:
  assumes "shlex_split line = Inr [''sym'', name, addr]"
  shows "exec_command e line st = exec_sym [''sym'', name, addr] st"
  using assms by (simp add: exec_command_def table_defs call_exec_def)




lemma save_symbol_silent:
  assumes "save_symbol name addr b st = (st', [], c)"
  shows "\<exists>a b'. py_int16 addr = Some a \<and> c = Returned \<and> dis st' = Some b'
           \<and> database_modified st'
           \<and> map_of (symbols b') = (map_of (symbols b))(name \<mapsto> a)
           \<and> map_of (reverse_symbols b') =
               (case map_of (symbols b) name of
                  None \<Rightarrow> (map_of (reverse_symbols b))(a \<mapsto> name)
                | Some old \<Rightarrow> ((map_of (reverse_symbols b))(old := None))(a \<mapsto> name))"
  using assms
  by (auto simp: save_symbol_def error_def Let_def update_conv' delete_conv'
      split: option.splits if_splits)

lemma exec_sym_silent:
  assumes "dis st = Some b" and "exec_sym [cmd, name, addr] st = (st1, [], Returned)"
  shows "save_symbol name addr b st = (st1, [], Returned)"
  using assms by (auto simp: exec_sym_def error_def split: list.splits if_splits)






lemma sym_step:
  assumes l: "shlex_split l = Inr [''sym'', name, addr]"
    and d: "dis st = Some b"
    and x: "exec_command e l st = (st1, [], Returned)"
  shows "\<exists>a b'. py_int16 addr = Some a \<and> dis st1 = Some b' \<and> database_modified st1
           \<and> map_of (symbols b') = (map_of (symbols b))(name \<mapsto> a)
           \<and> map_of (reverse_symbols b') =
               (case map_of (symbols b) name of
                  None \<Rightarrow> (map_of (reverse_symbols b))(a \<mapsto> name)
                | Some old \<Rightarrow> ((map_of (reverse_symbols b))(old := None))(a \<mapsto> name))"
proof -
  have "exec_sym [''sym'', name, addr] st = (st1, [], Returned)"
    using x exec_command_sym [OF l, of e st] by simp
  then have "save_symbol name addr b st = (st1, [], Returned)"
    using d by (rule exec_sym_silent [rotated])
  then show ?thesis
    using save_symbol_silent by blast
qed




lemmas sym_run_defs = exec_command_def shlex_defs table_defs call_exec_def exec_sym_def
  int16_defs save_symbol_def error_def




text \<open>
  C9 (redefinition). When \<^verbatim>\<open>sym NAME 0xADDR\<close> rebinds a name that the forward
  dictionary has at the address \<open>old\<close>, the command returns; if \<open>old\<close> had a
  reverse entry, the reverse dictionary afterwards is the old one with the entry of
  \<open>old\<close> deleted first and the pair of the new address added then, and the forward
  dictionary has the name at the new address. When the new address differs from
  \<open>old\<close>, no reverse entry for \<open>old\<close> is left at all.
\<close>

theorem sym_redefinition_removes_reverse:
  assumes "dis st = Some b" and "map_of (symbols b) name = Some old"
    and "name \<noteq> []" and "hd name \<noteq> CHR ''|''"
    and "startswith addr ''0x''" and "py_int16 addr = Some a"
  shows "\<exists>st' out b'. exec_sym [cmd, name, addr] st = (st', out, Returned) \<and> dis st' = Some b'
          \<and> (map_of (reverse_symbols b) old \<noteq> None \<longrightarrow>
                out = []
              \<and> map_of (symbols b') = (map_of (symbols b))(name \<mapsto> a)
              \<and> map_of (reverse_symbols b') =
                  ((map_of (reverse_symbols b))(old := None))(a \<mapsto> name))
          \<and> (a \<noteq> old \<longrightarrow> map_of (reverse_symbols b') old = None)"
proof -
  have eq: "exec_sym [cmd, name, addr] st = save_symbol name addr b st"
    using exec_sym_three [OF assms(3,4,1), of cmd addr] assms(5) by simp
  show ?thesis
  proof (cases "map_of (reverse_symbols b) old")
    case None
    then show ?thesis
      using assms(1,2,6) eq by (simp add: save_symbol_def error_def)
  next
    case (Some n)
    then show ?thesis
      using assms(2,6) eq by (simp add: save_symbol_def update_conv' delete_conv')
  qed
qed

theorem sym_redefinition_removes_reverse_witness:
  "exec_sym [''sym'', ''main'', ''0x2000'']
     (example_session\<lparr>dis := Some \<lparr>symbols = [(''main'', 4096)],
                                    reverse_symbols = [(4096, ''main'')]\<rparr>\<rparr>) =
     (example_session\<lparr>dis := Some \<lparr>symbols = [(''main'', 8192)],
                                    reverse_symbols = [(8192, ''main'')]\<rparr>,
                      database_modified := True\<rparr>, [], Returned)
   \<and> map_of [(''main'', 4096::int)] ''main'' = Some 4096
   \<and> startswith ''0x2000'' ''0x'' \<and> py_int16 ''0x2000'' = Some 8192
   \<and> map_of [(8192::int, ''main'')] 4096 = None"
proof -
  let ?b = "\<lparr>symbols = [(''main'', 4096)], reverse_symbols = [(4096, ''main'')]\<rparr>"
  let ?st = "example_session\<lparr>dis := Some ?b\<rparr>"
  have h: "dis ?st = Some ?b" "map_of (symbols ?b) ''main'' = Some 4096"
    "''main'' \<noteq> []" "hd ''main'' \<noteq> CHR ''|''" "startswith ''0x2000'' ''0x''"
    "py_int16 ''0x2000'' = Some 8192"
    by (simp_all add: int16_defs)
  have x: "exec_sym [''sym'', ''main'', ''0x2000''] ?st =
     (example_session\<lparr>dis := Some \<lparr>symbols = [(''main'', 8192)],
                                    reverse_symbols = [(8192, ''main'')]\<rparr>,
                      database_modified := True\<rparr>, [], Returned)"
    by (simp add: sym_run_defs example_session_def)
  show ?thesis
    using sym_redefinition_removes_reverse [OF h, of "''sym''"] x h(5,6) by simp
qed

subsection \<open>The exit guard\<close>

lemma exec_command_save:
  "exec_command e ''save'' st = exec_save e [''save''] st"
  by (simp add: exec_command_def shlex_defs table_defs call_exec_def)

lemma exec_command_exit:
  "exec_command e ''exit'' st = (st, [], SysExit 0)"
  by (simp add: exec_command_def shlex_defs table_defs call_exec_def exec_exit_def)

text \<open>
  C2 (exit guard). When \<^verbatim>\<open>rl.loop()\<close> returns, the loop ends if and only if
  \<^verbatim>\<open>database_modified\<close> is false; otherwise the warning is printed and the loop
  goes on with the rest of the script. After a \<^verbatim>\<open>sym\<close> command that succeeded
  the flag is set, so the end of input leaves the shell running, with the warning;
  after a \<^verbatim>\<open>save\<close> that succeeded the end of input ends it. \<^verbatim>\<open>exit\<close> raises
  \<^verbatim>\<open>SystemExit\<close> whatever the flag, and the process ends without the guard.
\<close>

theorem exit_guard:
  "(rl_loop e lines st = (st1, out1, Returned) \<longrightarrow>
      (\<not> database_modified st1 \<longrightarrow> repl e (lines # script) st = (st1, out1, Terminated))
    \<and> (database_modified st1 \<longrightarrow>
          snd (snd (repl e (lines # script) st)) = snd (snd (repl e script st1))
        \<and> repl e [lines] st =
            (st1, out1 @ [Print ''the database was modified, run save or exit to force''],
             Running)))
   \<and> (shlex_split line = Inr [''sym'', name, addr] \<and> dis st = Some b
        \<and> exec_command e line st = (st2, [], Returned) \<longrightarrow>
      database_modified st2
    \<and> repl e [[line]] st =
        (st2\<lparr>history := history st2 @ [line]\<rparr>,
         [Print ''the database was modified, run save or exit to force''], Running))
   \<and> (open_db e (db_path st) \<and> dis st = Some b \<longrightarrow>
      repl e [[''save'']] st =
        (st\<lparr>history := history st @ [''save''], database_modified := False\<rparr>,
         [Db_written (db_path st) (symbols b) (history st),
          Print (''database saved to '' @ db_path st)],
         Terminated))
   \<and> exec_command e ''exit'' st = (st, [], SysExit 0)
   \<and> (rl_loop e lines st = (st1, out1, SysExit n) \<longrightarrow>
        repl e (lines # script) st = (st1, out1, Exited n))
   \<and> repl e ((''exit'' # lines) # script) st = (st, [], Exited 0)"
proof (intro conjI impI)
  assume "rl_loop e lines st = (st1, out1, Returned)" "\<not> database_modified st1"
  then show "repl e (lines # script) st = (st1, out1, Terminated)" by simp
next
  assume "rl_loop e lines st = (st1, out1, Returned)" "database_modified st1"
  then show "snd (snd (repl e (lines # script) st)) = snd (snd (repl e script st1))"
    by (simp split: prod.splits)
next
  assume "rl_loop e lines st = (st1, out1, Returned)" "database_modified st1"
  then show "repl e [lines] st =
      (st1, out1 @ [Print ''the database was modified, run save or exit to force''], Running)"
    by simp
next
  assume h: "shlex_split line = Inr [''sym'', name, addr] \<and> dis st = Some b
        \<and> exec_command e line st = (st2, [], Returned)"
  then show m: "database_modified st2"
    using sym_step [of line name addr st b e st2] by blast
  from h m show "repl e [[line]] st =
        (st2\<lparr>history := history st2 @ [line]\<rparr>,
         [Print ''the database was modified, run save or exit to force''], Running)"
    by simp
next
  assume "open_db e (db_path st) \<and> dis st = Some b"
  then show "repl e [[''save'']] st =
        (st\<lparr>history := history st @ [''save''], database_modified := False\<rparr>,
         [Db_written (db_path st) (symbols b) (history st),
          Print (''database saved to '' @ db_path st)],
         Terminated)"
    by (simp add: exec_command_save exec_save_def)
next
  show "exec_command e ''exit'' st = (st, [], SysExit 0)"
    by (rule exec_command_exit)
next
  assume "rl_loop e lines st = (st1, out1, SysExit n)"
  then show "repl e (lines # script) st = (st1, out1, Exited n)" by simp
next
  show "repl e ((''exit'' # lines) # script) st = (st, [], Exited 0)"
    by (simp add: exec_command_exit)
qed

theorem exit_guard_witness:
  "rl_loop example_env [] example_session = (example_session, [], Returned)
   \<and> \<not> database_modified example_session
   \<and> repl example_env [[]] example_session = (example_session, [], Terminated)
   \<and> shlex_split ''sym main 0x401000'' = Inr [''sym'', ''main'', ''0x401000'']
   \<and> repl example_env [[''sym main 0x401000'']] example_session =
       (example_session\<lparr>dis := Some \<lparr>symbols = [(''main'', 4198400)],
                                      reverse_symbols = [(4198400, ''main'')]\<rparr>,
                        history := [''sym main 0x401000''], database_modified := True\<rparr>,
        [Print ''the database was modified, run save or exit to force''], Running)
   \<and> repl example_env [[''sym main 0x401000''], [''save'']] example_session =
       (example_session\<lparr>dis := Some \<lparr>symbols = [(''main'', 4198400)],
                                      reverse_symbols = [(4198400, ''main'')]\<rparr>,
                        history := [''sym main 0x401000'', ''save''],
                        database_modified := False\<rparr>,
        [Print ''the database was modified, run save or exit to force'',
         Db_written ''a.out.db'' [(''main'', 4198400)] [''sym main 0x401000''],
         Print ''database saved to a.out.db''], Terminated)
   \<and> repl example_env [[''sym main 0x401000'', ''exit''], []] example_session =
       (example_session\<lparr>dis := Some \<lparr>symbols = [(''main'', 4198400)],
                                      reverse_symbols = [(4198400, ''main'')]\<rparr>,
                        history := [''sym main 0x401000''], database_modified := True\<rparr>,
        [], Exited 0)"
proof -
  let ?l = "''sym main 0x401000''"
  let ?b = "\<lparr>symbols = [(''main'', 4198400)], reverse_symbols = [(4198400, ''main'')]\<rparr>"
  let ?st2 = "example_session\<lparr>dis := Some ?b, database_modified := True\<rparr>"
  let ?st3 = "?st2\<lparr>history := [?l]\<rparr>"
  have t: "shlex_split ?l = Inr [''sym'', ''main'', ''0x401000'']"
    by (simp add: shlex_defs)
  have d: "dis example_session = Some \<lparr>symbols = [], reverse_symbols = []\<rparr>"
    by (simp add: example_session_def)
  have x: "exec_command example_env ?l example_session = (?st2, [], Returned)"
    by (simp add: sym_run_defs example_session_def)
  have r0: "rl_loop example_env [] example_session = (example_session, [], Returned)"
    by simp
  have n0: "\<not> database_modified example_session"
    by (simp add: example_session_def)
  have g1: "repl example_env [[]] example_session = (example_session, [], Terminated)"
    using exit_guard [of example_env "[]" example_session example_session "[]" "[]"] r0 n0
    by blast
  have g2: "repl example_env [[?l]] example_session =
      (?st3, [Print ''the database was modified, run save or exit to force''], Running)"
    using exit_guard [of example_env "[]" example_session example_session "[]" "[]"
        ?l "''main''" "''0x401000''" "\<lparr>symbols = [], reverse_symbols = []\<rparr>" ?st2] t d x
    by (simp add: example_session_def)
  have o: "open_db example_env (db_path ?st3) \<and> dis ?st3 = Some ?b"
    by (simp add: example_env_def)
  have g3: "repl example_env [[''save'']] ?st3 =
      (?st3\<lparr>history := history ?st3 @ [''save''], database_modified := False\<rparr>,
         [Db_written (db_path ?st3) (symbols ?b) (history ?st3),
          Print (''database saved to '' @ db_path ?st3)], Terminated)"
    using exit_guard [of example_env "[]" ?st3 ?st3 "[]" "[]" "[]" "[]" "[]" ?b ?st3] o
    by blast
  have g4: "repl example_env ((''exit'' # []) # [[]]) ?st3 = (?st3, [], Exited 0)"
    using exit_guard [of example_env "[]" ?st3 ?st3 "[]" "[[]]" "[]" "[]" "[]" ?b ?st3 0]
    by blast
  have r1: "rl_loop example_env [?l] example_session = (?st3, [], Returned)"
    using x by (simp add: example_session_def)
  have c3: "repl example_env [[?l], [''save'']] example_session =
      (?st3\<lparr>history := history ?st3 @ [''save''], database_modified := False\<rparr>,
       [Print ''the database was modified, run save or exit to force'',
        Db_written (db_path ?st3) (symbols ?b) (history ?st3),
        Print (''database saved to '' @ db_path ?st3)], Terminated)"
    using r1 g3 by (simp del: rl_loop.simps)
  have r2: "rl_loop example_env [?l, ''exit''] example_session = (?st3, [], SysExit 0)"
    using x by (simp add: exec_command_exit example_session_def)
  have c4: "repl example_env [[?l, ''exit''], []] example_session = (?st3, [], Exited 0)"
    using r2 by (simp del: rl_loop.simps)
  show ?thesis
    using r0 n0 g1 t g2 c3 c4 by (simp add: example_session_def)
qed


subsection \<open>Completion\<close>

lemmas complete_defs = complete_def candidates_def COMMANDS_ALPHA_def MAX_PRINT_COMPLETE_def
  startswith_def common_prefix_def words_idx_def

text \<open>
  The worked example of the specification fails as stated: only \<^verbatim>\<open>load\<close> starts
  with \<^verbatim>\<open>lo\<close>, so there is one candidate and no common prefix.
\<close>

theorem complete_lo_counterexample:
  "complete example_env ''lo'' example_session = Inr ([], (Some [''ad ''], Some ''lo'', None))"
  by (simp add: complete_defs shlex_defs)

text \<open>
  C7 (worked example), as amended. Completing the single token \<^verbatim>\<open>lo\<close> returns the
  one candidate \<^verbatim>\<open>"ad "\<close> (the rest of \<^verbatim>\<open>load\<close> and the separator) and
  \<^verbatim>\<open>None\<close> as common prefix. The five candidates belong to the token \<^verbatim>\<open>lr\<close>:
  the five raw loaders, with common prefix \<^verbatim>\<open>aw\<close>.
\<close>

theorem complete_lo_lr:
  "complete e ''lo'' st = Inr ([], (Some [''ad ''], Some ''lo'', None))
   \<and> complete e ''lr'' st =
       Inr ([], (Some [''awarm '', ''awmips '', ''awmips64 '', ''awx86 '', ''awx64 ''],
                 Some ''lr'', Some ''aw''))"
  by (simp add: complete_defs shlex_defs)


lemma call_complete_other_position:
  "nth_arg \<noteq> 1 \<Longrightarrow> call_complete e f tmp_line nth_arg last_tok st = Inr (Some [])"
  by (cases f) (simp_all add: call_complete_def complete_load_def complete_x_def)

text \<open>
  C10 (first argument only). For every registered command with a completer, the
  completer called for an argument index other than 1 returns the empty list; so
  \<^verbatim>\<open>complete\<close> on a line whose last token is the second argument or a later one
  returns no candidate and no common prefix.
\<close>

theorem completion_first_argument_only:
  assumes "COMMANDS cmd = Some c" and "callback_complete c = Some f"
  shows "(nth_arg \<noteq> 1 \<longrightarrow> call_complete e f tmp_line nth_arg last_tok st = Inr (Some []))
       \<and> (shlex_split (line @ ''_'') = Inr (cmd # args) \<and> 2 \<le> length args \<longrightarrow>
            complete e line st = Inr ([], (Some [], Some (butlast (last args)), None)))"
proof (intro conjI impI)
  assume "nth_arg \<noteq> 1"
  then show "call_complete e f tmp_line nth_arg last_tok st = Inr (Some [])"
    by (rule call_complete_other_position)
next
  assume h: "shlex_split (line @ ''_'') = Inr (cmd # args) \<and> 2 \<le> length args"
  then have n: "length (cmd # args) - 1 \<noteq> 1" "length (cmd # args) \<noteq> 1" "args \<noteq> []"
    by auto
  have "candidates e line st = Inr (Some [], butlast (last args))"
    using h assms n call_complete_other_position [OF n(1), of e f line "butlast (last args)" st]
    by (simp add: candidates_def)
  then show "complete e line st = Inr ([], (Some [], Some (butlast (last args)), None))"
    by (simp add: complete_def)
qed

theorem completion_first_argument_only_witness:
  "COMMANDS ''sym'' = Some (Command 3 (Some Exec_sym) (Some Complete_x))
   \<and> COMMANDS ''load'' = Some (Command 1 (Some Exec_load) (Some Complete_load))
   \<and> shlex_split (''sym a '' @ ''_'') = Inr (''sym'' # [''a'', ''_''])
   \<and> complete example_env ''sym a ''
        (example_session\<lparr>dis := Some \<lparr>symbols = [(''a'', 1)], reverse_symbols = [(1, ''a'')]\<rparr>\<rparr>)
       = Inr ([], (Some [], Some [], None))
   \<and> call_complete example_env Complete_load ''load a '' 2 [] example_session = Inr (Some [])
   \<and> complete example_env ''sym ''
        (example_session\<lparr>dis := Some \<lparr>symbols = [(''a'', 1)], reverse_symbols = [(1, ''a'')]\<rparr>\<rparr>)
       = Inr ([], (Some [''a ''], Some [], None))"
proof -
  let ?st = "example_session\<lparr>dis := Some \<lparr>symbols = [(''a'', 1)], reverse_symbols = [(1, ''a'')]\<rparr>\<rparr>"
  have c1: "COMMANDS ''sym'' = Some (Command 3 (Some Exec_sym) (Some Complete_x))"
    by (simp add: table_defs)
  have f1: "callback_complete (Command 3 (Some Exec_sym) (Some Complete_x)) = Some Complete_x"
    by (simp add: Command_def)
  have c2: "COMMANDS ''load'' = Some (Command 1 (Some Exec_load) (Some Complete_load))"
    by (simp add: table_defs)
  have f2: "callback_complete (Command 1 (Some Exec_load) (Some Complete_load)) = Some Complete_load"
    by (simp add: Command_def)
  have t: "shlex_split (''sym a '' @ ''_'') = Inr (''sym'' # [''a'', ''_''])"
    by (simp add: shlex_defs)
  have first: "complete example_env ''sym '' ?st = Inr ([], (Some [''a ''], Some [], None))"
    by (simp add: complete_defs shlex_defs table_defs call_complete_def complete_x_def
        find_symbol_def example_session_def)
  show ?thesis
    using completion_first_argument_only [OF c1 f1, of 2 example_env "''sym a ''" "[]" ?st
        "''sym a ''" "[''a'', ''_'']"]
      completion_first_argument_only [OF c2 f2, of 2 example_env "''load a ''" "[]"
        example_session "''load a ''" "[''a'', ''_'']"]
      c1 c2 t first
    by simp
qed

lemma collect_capped_eq:
  "i < cap \<Longrightarrow>
   collect_capped cap f xs cands i =
     (if i + length (List.map_filter f xs) < cap
      then Some (cands @ List.map_filter f xs) else None)"
proof (induction xs arbitrary: cands i)
  case Nil
  then show ?case by (simp add: List.map_filter_simps)
next
  case (Cons x xs)
  show ?case
  proof (cases "f x")
    case None
    then show ?thesis using Cons by (simp add: List.map_filter_simps)
  next
    case (Some s)
    show ?thesis
    proof (cases "i + 1 = cap")
      case True
      then show ?thesis using Some by (simp add: List.map_filter_simps)
    next
      case False
      with Cons.prems have "i + 1 < cap" by simp
      from Cons.IH [OF this] Some False show ?thesis
        by (simp add: List.map_filter_simps)
    qed
  qed
qed

lemma collect_capped_filter:
  "0 < cap \<Longrightarrow>
   collect_capped cap (\<lambda>x. if P x then Some (g x) else None) xs [] 0 =
     (if length (filter P xs) < cap then Some (map g (filter P xs)) else None)"
proof -
  assume c: "0 < cap"
  have m: "List.map_filter (\<lambda>x. if P x then Some (g x) else None) xs = map g (filter P xs)"
    by (simp add: map_filter_map_filter)
  show ?thesis
    using collect_capped_eq [OF c, of "\<lambda>x. if P x then Some (g x) else None" xs "[]"]
    by (simp add: m)
qed

lemma find_symbol_eq:
  "find_symbol tmp_line nth_arg last_tok b =
     (if length (filter (\<lambda>sym. startswith sym last_tok) (map fst (symbols b))) < 80
      then Some (map (\<lambda>sym. drop (length last_tok) (sym @ '' ''))
                   (filter (\<lambda>sym. startswith sym last_tok) (map fst (symbols b))))
      else None)"
  by (simp add: find_symbol_def collect_capped_filter MAX_PRINT_COMPLETE_def)


lemma complete_load_eq:
  assumes "listdir e (if os_path_dirname last_tok = [] then ''.'' else os_path_dirname last_tok)
             = Inr fs"
  shows "complete_load e tmp_line 1 last_tok =
     Inr (if length (filter (\<lambda>f. startswith f (os_path_basename last_tok)) fs) < 80
          then Some (map (\<lambda>f. drop (length (os_path_basename last_tok))
                             (backslash_spaces f @
                              (if isdir e (os_path_join
                                    (if os_path_dirname last_tok = [] then ''.''
                                     else os_path_dirname last_tok) f)
                               then ''/'' else '' '')))
                      (filter (\<lambda>f. startswith f (os_path_basename last_tok)) fs))
          else None)"
  using assms
  by (simp add: complete_load_def Let_def collect_capped_filter MAX_PRINT_COMPLETE_def)

lemma command_names_eq:
  "collect_capped MAX_PRINT_COMPLETE
     (\<lambda>cmd. if startswith cmd last_tok then Some (drop (length last_tok) cmd @ '' '') else None)
     COMMANDS_ALPHA [] 0 =
   Some (map (\<lambda>cmd. drop (length last_tok) cmd @ '' '')
           (filter (\<lambda>cmd. startswith cmd last_tok) COMMANDS_ALPHA))"
proof -
  have "length (filter (\<lambda>cmd. startswith cmd last_tok) COMMANDS_ALPHA) \<le> length COMMANDS_ALPHA"
    by (rule length_filter_le)
  also have "\<dots> < 80" by (simp add: COMMANDS_ALPHA_def)
  finally show ?thesis
    by (simp add: collect_capped_filter MAX_PRINT_COMPLETE_def)
qed

text \<open>
  C6 (candidate cap), as amended. Each of the three candidate loops returns the full
  list of remainders when fewer than 80 names match, and \<^verbatim>\<open>None\<close> when 80 or more
  match: symbol completion over the symbol table, path completion over the entries of
  the directory, and command-name completion, whose list of 22 names never reaches the
  cap. On \<^verbatim>\<open>None\<close> \<^verbatim>\<open>complete\<close> prints the notice and returns three times
  \<^verbatim>\<open>None\<close>; it does not raise.
\<close>

theorem candidate_cap:
  "find_symbol tmp_line nth_arg last_tok b =
     (if length (filter (\<lambda>sym. startswith sym last_tok) (map fst (symbols b))) < 80
      then Some (map (\<lambda>sym. drop (length last_tok) (sym @ '' ''))
                   (filter (\<lambda>sym. startswith sym last_tok) (map fst (symbols b))))
      else None)
   \<and> (listdir e (if os_path_dirname last_tok = [] then ''.'' else os_path_dirname last_tok)
         = Inr fs \<longrightarrow>
      complete_load e tmp_line 1 last_tok =
        Inr (if length (filter (\<lambda>f. startswith f (os_path_basename last_tok)) fs) < 80
             then Some (map (\<lambda>f. drop (length (os_path_basename last_tok))
                                (backslash_spaces f @
                                 (if isdir e (os_path_join
                                       (if os_path_dirname last_tok = [] then ''.''
                                        else os_path_dirname last_tok) f)
                                  then ''/'' else '' '')))
                         (filter (\<lambda>f. startswith f (os_path_basename last_tok)) fs))
             else None))
   \<and> (shlex_split (line @ ''_'') = Inr [tok] \<longrightarrow>
      candidates e line st =
        Inr (Some (map (\<lambda>cmd. drop (length (butlast tok)) cmd @ '' '')
                     (filter (\<lambda>cmd. startswith cmd (butlast tok)) COMMANDS_ALPHA)),
             butlast tok))
   \<and> (candidates e line st = Inr (None, last_tok) \<longrightarrow>
      complete e line st =
        Inr ([Print (CHR 0x0A # ''too much possibilities'')], (None, None, None)))"
proof (intro conjI impI)
  show "find_symbol tmp_line nth_arg last_tok b =
     (if length (filter (\<lambda>sym. startswith sym last_tok) (map fst (symbols b))) < 80
      then Some (map (\<lambda>sym. drop (length last_tok) (sym @ '' ''))
                   (filter (\<lambda>sym. startswith sym last_tok) (map fst (symbols b))))
      else None)"
    by (rule find_symbol_eq)
next
  assume "listdir e (if os_path_dirname last_tok = [] then ''.'' else os_path_dirname last_tok)
         = Inr fs"
  then show "complete_load e tmp_line 1 last_tok =
        Inr (if length (filter (\<lambda>f. startswith f (os_path_basename last_tok)) fs) < 80
             then Some (map (\<lambda>f. drop (length (os_path_basename last_tok))
                                (backslash_spaces f @
                                 (if isdir e (os_path_join
                                       (if os_path_dirname last_tok = [] then ''.''
                                        else os_path_dirname last_tok) f)
                                  then ''/'' else '' '')))
                         (filter (\<lambda>f. startswith f (os_path_basename last_tok)) fs))
             else None)"
    by (rule complete_load_eq)
next
  assume "shlex_split (line @ ''_'') = Inr [tok]"
  then show "candidates e line st =
        Inr (Some (map (\<lambda>cmd. drop (length (butlast tok)) cmd @ '' '')
                     (filter (\<lambda>cmd. startswith cmd (butlast tok)) COMMANDS_ALPHA)),
             butlast tok)"
    by (simp add: candidates_def command_names_eq Let_def)
next
  assume "candidates e line st = Inr (None, last_tok)"
  then show "complete e line st =
        Inr ([Print (CHR 0x0A # ''too much possibilities'')], (None, None, None))"
    by (simp add: complete_def)
qed

text \<open>
  The claim as stated fails at exactly 80 matches: with the eighty symbols of
  \<open>example_binary80\<close> and an empty prefix the loop gives up, although no more than
  80 names match.
\<close>

lemma eighty_names:
  "map fst (symbols example_binary80) = map (\<lambda>n. replicate (Suc n) (CHR ''a'')) [0..<80]"
  by (simp add: example_binary80_def comp_def)

theorem candidate_cap_counterexample:
  "length (filter (\<lambda>sym. startswith sym []) (map fst (symbols example_binary80))) = 80
   \<and> find_symbol ''x '' 1 [] example_binary80 = None
   \<and> complete example_env ''x '' (example_session\<lparr>dis := Some example_binary80\<rparr>) =
       Inr ([Print (CHR 0x0A # ''too much possibilities'')], (None, None, None))"
proof -
  have l: "length (filter (\<lambda>sym. startswith sym []) (map fst (symbols example_binary80))) = 80"
    by (simp add: eighty_names startswith_def)
  have f: "find_symbol ''x '' 1 [] example_binary80 = None"
    using l by (simp add: find_symbol_eq)
  have t: "shlex_split (''x '' @ ''_'') = Inr [''x'', ''_'']"
    by (simp add: shlex_defs)
  have "candidates example_env ''x '' (example_session\<lparr>dis := Some example_binary80\<rparr>) =
          Inr (None, [])"
    using t f by (simp add: candidates_def table_defs call_complete_def complete_x_def)
  then have "complete example_env ''x '' (example_session\<lparr>dis := Some example_binary80\<rparr>) =
       Inr ([Print (CHR 0x0A # ''too much possibilities'')], (None, None, None))"
    by (simp add: complete_def)
  with l f show ?thesis by blast
qed

theorem candidate_cap_witness:
  "listdir example_env ''.'' = Inr [''a.out'', ''src'']
   \<and> complete_load example_env ''load '' 1 [] = Inr (Some [''a.out '', ''src/''])
   \<and> shlex_split (''d'' @ ''_'') = Inr [''d_'']
   \<and> candidates example_env ''d'' example_session =
       Inr (Some [''a '', ''b '', ''d '', ''w '', ''q '', ''ump '', ''isplay.print_section '',
                  ''isplay.print_comments ''], ''d'')
   \<and> candidates example_env ''x '' (example_session\<lparr>dis := Some example_binary80\<rparr>) =
       Inr (None, [])
   \<and> complete example_env ''x '' (example_session\<lparr>dis := Some example_binary80\<rparr>) =
       Inr ([Print (CHR 0x0A # ''too much possibilities'')], (None, None, None))"
proof -
  let ?st = "example_session\<lparr>dis := Some example_binary80\<rparr>"
  have d: "os_path_dirname [] = []" "os_path_basename [] = []"
    by (simp_all add: os_path_dirname_def os_path_basename_def rfind_slash_next_def)
  have ls: "listdir example_env (if os_path_dirname [] = [] then ''.'' else os_path_dirname [])
              = Inr [''a.out'', ''src'']"
    by (simp add: d example_env_def)
  have t1: "shlex_split (''d'' @ ''_'') = Inr [''d_'']"
    by (simp add: shlex_defs)
  have t2: "shlex_split (''x '' @ ''_'') = Inr [''x'', ''_'']"
    by (simp add: shlex_defs)
  have l: "length (filter (\<lambda>sym. startswith sym []) (map fst (symbols example_binary80))) = 80"
    by (simp add: eighty_names startswith_def)
  have c: "candidates example_env ''x '' ?st = Inr (None, [])"
    using t2 l candidate_cap [where tmp_line = "''x ''" and nth_arg = 1 and last_tok = "[]"
        and b = example_binary80]
    by (simp add: candidates_def table_defs call_complete_def complete_x_def)
  note w1 = candidate_cap [where tmp_line = "''load ''" and last_tok = "[]" and e = example_env
      and fs = "[''a.out'', ''src'']" and line = "''d''" and tok = "''d_''"
      and st = example_session]
  note w2 = candidate_cap [where last_tok = "[]" and e = example_env and line = "''x ''"
      and st = ?st]
  have r1: "complete_load example_env ''load '' 1 [] = Inr (Some [''a.out '', ''src/''])"
    using w1 ls
    by (simp add: d startswith_def backslash_spaces_def os_path_join_def example_env_def)
  have r2: "candidates example_env ''d'' example_session =
       Inr (Some [''a '', ''b '', ''d '', ''w '', ''q '', ''ump '', ''isplay.print_section '',
                  ''isplay.print_comments ''], ''d'')"
    using w1 t1 by (simp add: COMMANDS_ALPHA_def startswith_def)
  have r3: "complete example_env ''x '' ?st =
       Inr ([Print (CHR 0x0A # ''too much possibilities'')], (None, None, None))"
    using w2 c by blast
  show ?thesis
    using ls t1 r1 r2 c r3 by (simp add: d)
qed

subsection \<open>The common prefix\<close>

lemma fold_words_keys:
  "fst ` set (fold (\<lambda>(i, word) d. AList.update (length word) i d) (enumerate k ws) d) =
     fst ` set d \<union> length ` set ws"
proof (induction ws arbitrary: k d)
  case Nil
  then show ?case by simp
next
  case (Cons w ws)
  show ?case
    by (simp add: Cons.IH dom_update)
qed

lemma fold_words_lookup:
  assumes "map_of (fold (\<lambda>(i, word) d. AList.update (length word) i d) (enumerate k ws) d) l
             = Some i"
  shows "map_of d l = Some i \<or> (k \<le> i \<and> i < k + length ws \<and> length (ws ! (i - k)) = l)"
  using assms
proof (induction ws arbitrary: k d)
  case Nil
  then show ?case by simp
next
  case (Cons w ws)
  from Cons.prems
  have "map_of (fold (\<lambda>(i, word) d. AList.update (length word) i d) (enumerate (Suc k) ws)
          (AList.update (length w) k d)) l = Some i"
    by simp
  from Cons.IH [OF this]
  consider "map_of (AList.update (length w) k d) l = Some i"
    | "Suc k \<le> i \<and> i < Suc k + length ws \<and> length (ws ! (i - Suc k)) = l"
    by blast
  then show ?case
  proof cases
    case 1
    then show ?thesis
      by (auto simp: update_conv' split: if_splits)
  next
    case 2
    then have "(w # ws) ! (i - k) = ws ! (i - Suc k)"
      by (metis Suc_diff_le diff_Suc_Suc nth_Cons_Suc)
    with 2 show ?thesis by auto
  qed
qed

lemma words_idx_ref:
  assumes "ws \<noteq> []"
  shows "words_idx ws \<noteq> []
       \<and> min_list (map fst (words_idx ws)) = Min (length ` set ws)
       \<and> (\<exists>ref. map_of (words_idx ws) (Min (length ` set ws)) = Some ref
              \<and> ref < length ws \<and> length (ws ! ref) = Min (length ` set ws))"
proof -
  have keys: "fst ` set (words_idx ws) = length ` set ws"
    using fold_words_keys [of 0 ws "[]"] by (simp add: words_idx_def)
  with assms have ne: "words_idx ws \<noteq> []" by auto
  then have m: "min_list (map fst (words_idx ws)) = Min (length ` set ws)"
    using keys by (simp add: min_list_Min)
  have "Min (length ` set ws) \<in> length ` set ws"
    using assms by (intro Min_in) auto
  then have "Min (length ` set ws) \<in> fst ` set (words_idx ws)"
    using keys by simp
  then obtain ref where r: "map_of (words_idx ws) (Min (length ` set ws)) = Some ref"
    by (metis map_of_eq_None_iff not_Some_eq)
  from fold_words_lookup [of 0 ws "[]"] r
  have "ref < length ws \<and> length (ws ! ref) = Min (length ` set ws)"
    by (simp add: words_idx_def)
  with ne m r show ?thesis by blast
qed

lemma all_have_char_eq:
  assumes "\<forall>j\<in>set js. j < length ws \<and> i < length (ws ! j)"
  shows "all_have_char ws js i ch = Inr (\<forall>j\<in>set js. ws ! j ! i = ch)"
  using assms by (induction js) auto

lemma common_loop_spec:
  assumes "\<forall>j\<in>set js. j < length ws \<and> length r \<le> length (ws ! j)"
    and "i \<le> length r" and "rest = drop i r" and "common = take i r"
    and "\<forall>j\<in>set js. take i (ws ! j) = take i r"
  shows "\<exists>k. k \<le> length r \<and> common_loop ws js i rest common = Inr (take k r)
           \<and> (\<forall>j\<in>set js. take k (ws ! j) = take k r)
           \<and> (k < length r \<longrightarrow> (\<exists>j\<in>set js. ws ! j ! k \<noteq> r ! k))"
  using assms(2-)
proof (induction rest arbitrary: i common)
  case Nil
  then have "i = length r" by simp
  with Nil show ?case by auto
next
  case (Cons ch rest)
  from Cons.prems(2) have i: "i < length r"
    by (metis drop_all list.distinct(1) not_le_imp_less)
  with Cons.prems(2) have ch: "ch = r ! i" and rest: "rest = drop (Suc i) r"
    by (simp_all add: Cons_nth_drop_Suc [symmetric])
  have bound: "\<forall>j\<in>set js. j < length ws \<and> i < length (ws ! j)"
    using assms(1) i by fastforce
  note ahc = all_have_char_eq [OF bound, of ch]
  show ?case
  proof (cases "\<forall>j\<in>set js. ws ! j ! i = ch")
    case False
    then have "common_loop ws js i (ch # rest) common = Inr (take i r)"
      using ahc Cons.prems(3) by simp
    with False Cons.prems(4) i ch show ?thesis
      by (intro exI [of _ i]) auto
  next
    case True
    have step: "common_loop ws js i (ch # rest) common =
                common_loop ws js (Suc i) rest (common @ [ch])"
      using ahc True by simp
    have c': "common @ [ch] = take (Suc i) r"
      using Cons.prems(3) ch i by (simp add: take_Suc_conv_app_nth)
    have t': "\<forall>j\<in>set js. take (Suc i) (ws ! j) = take (Suc i) r"
    proof
      fix j assume j: "j \<in> set js"
      with bound have "i < length (ws ! j)" by blast
      then show "take (Suc i) (ws ! j) = take (Suc i) r"
        using Cons.prems(4) True j i ch by (simp add: take_Suc_conv_app_nth)
    qed
    from i have "Suc i \<le> length r" by simp
    from Cons.IH [OF this rest c' t'] step show ?thesis by simp
  qed
qed


lemma prefix_nth: "prefix q x \<Longrightarrow> k < length q \<Longrightarrow> x ! k = q ! k"
  by (auto simp: prefix_def nth_append)

lemma common_prefix_longest:
  assumes "cs \<noteq> []"
  shows "\<exists>p. common_prefix cs = Inr p \<and> (\<forall>c\<in>set cs. prefix p c)
           \<and> (\<forall>q. (\<forall>c\<in>set cs. prefix q c) \<longrightarrow> prefix q p)
           \<and> length p \<le> Min (length ` set cs)"
proof -
  from words_idx_ref [OF assms] obtain ref where
    ne: "words_idx cs \<noteq> []"
    and m: "min_list (map fst (words_idx cs)) = Min (length ` set cs)"
    and r: "map_of (words_idx cs) (Min (length ` set cs)) = Some ref"
    and ref: "ref < length cs" and len: "length (cs ! ref) = Min (length ` set cs)"
    by blast
  let ?js = "remove1 ref [0..<length cs]"
  let ?r = "cs ! ref"
  have cp: "common_prefix cs = common_loop cs ?js 0 ?r []"
    using ne m r ref by (simp add: common_prefix_def Let_def)
  have js: "set ?js = {0..<length cs} - {ref}"
    by (simp add: set_remove1_eq)
  have short: "length ?r \<le> length (cs ! j)" if "j < length cs" for j
    using that len by (simp add: Min_le)
  have b: "\<forall>j\<in>set ?js. j < length cs \<and> length ?r \<le> length (cs ! j)"
    using js short by auto
  from common_loop_spec [OF b, of 0 ?r "[]"] obtain k where
    k: "k \<le> length ?r" and res: "common_loop cs ?js 0 ?r [] = Inr (take k ?r)"
    and eq: "\<forall>j\<in>set ?js. take k (cs ! j) = take k ?r"
    and mis: "k < length ?r \<longrightarrow> (\<exists>j\<in>set ?js. cs ! j ! k \<noteq> ?r ! k)"
    by auto
  have all: "prefix (take k ?r) c" if "c \<in> set cs" for c
  proof -
    from that obtain j where j: "j < length cs" "c = cs ! j"
      by (auto simp: in_set_conv_nth)
    show ?thesis
    proof (cases "j = ref")
      case True
      with j show ?thesis by (simp add: take_is_prefix)
    next
      case False
      with j js have "j \<in> set ?js" by simp
      with eq have "take k (cs ! j) = take k ?r" by blast
      then show ?thesis
        using j take_is_prefix [of k "cs ! j"] by simp
    qed
  qed
  have maxi: "prefix q (take k ?r)" if q: "\<forall>c\<in>set cs. prefix q c" for q
  proof -
    from q ref have qr: "prefix q ?r" by simp
    then have lq: "length q \<le> length ?r" by (rule prefix_length_le)
    have "length q \<le> k"
    proof (rule ccontr)
      assume "\<not> length q \<le> k"
      then have kq: "k < length q" by simp
      with lq have "k < length ?r" by simp
      with mis have "\<exists>j\<in>set ?js. cs ! j ! k \<noteq> ?r ! k" by blast
      then obtain j where j: "j \<in> set ?js" "cs ! j ! k \<noteq> ?r ! k" by blast
      with js have "cs ! j \<in> set cs" by simp
      with q have "prefix q (cs ! j)" by blast
      with kq qr j(2) show False
        by (simp add: prefix_nth)
    qed
    moreover from qr have "q = take (length q) ?r"
      by (auto simp: prefix_def)
    ultimately have "q = take (length q) (take k ?r)"
      by (simp add: min_def)
    then show ?thesis
      by (metis take_is_prefix)
  qed
  have "length (take k ?r) \<le> Min (length ` set cs)"
    using len by simp
  with cp res all maxi show ?thesis by auto
qed

text \<open>
  C3 (longest common prefix). Whenever the candidate stage of \<^verbatim>\<open>complete\<close> yields
  a list of more than one candidate, \<^verbatim>\<open>complete\<close> returns (no index is read out of
  range), and the third component is a prefix of every candidate, every common prefix
  of the candidates is a prefix of it, and it is no longer than the shortest
  candidate. With at most one candidate the third component is \<^verbatim>\<open>None\<close>.
\<close>

theorem complete_common_prefix:
  assumes "candidates e line st = Inr (Some cs, last_tok)"
  shows "(1 < length cs \<longrightarrow>
            (\<exists>p. complete e line st = Inr ([], (Some cs, Some last_tok, Some p))
                \<and> (\<forall>c\<in>set cs. prefix p c)
                \<and> (\<forall>q. (\<forall>c\<in>set cs. prefix q c) \<longrightarrow> prefix q p)
                \<and> length p \<le> Min (length ` set cs)))
       \<and> (length cs \<le> 1 \<longrightarrow>
            complete e line st = Inr ([], (Some cs, Some last_tok, None)))"
proof (intro conjI impI)
  assume l: "1 < length cs"
  then have "cs \<noteq> []" by auto
  from common_prefix_longest [OF this] obtain p where
    p: "common_prefix cs = Inr p" "\<forall>c\<in>set cs. prefix p c"
       "\<forall>q. (\<forall>c\<in>set cs. prefix q c) \<longrightarrow> prefix q p" "length p \<le> Min (length ` set cs)"
    by blast
  have "complete e line st = Inr ([], (Some cs, Some last_tok, Some p))"
    using assms l p(1) by (simp add: complete_def)
  with p show "\<exists>p. complete e line st = Inr ([], (Some cs, Some last_tok, Some p))
                \<and> (\<forall>c\<in>set cs. prefix p c)
                \<and> (\<forall>q. (\<forall>c\<in>set cs. prefix q c) \<longrightarrow> prefix q p)
                \<and> length p \<le> Min (length ` set cs)"
    by blast
next
  assume "length cs \<le> 1"
  then show "complete e line st = Inr ([], (Some cs, Some last_tok, None))"
    using assms by (simp add: complete_def)
qed

theorem complete_common_prefix_witness:
  "candidates example_env ''lr'' example_session =
     Inr (Some [''awarm '', ''awmips '', ''awmips64 '', ''awx86 '', ''awx64 ''], ''lr'')
   \<and> complete example_env ''lr'' example_session =
       Inr ([], (Some [''awarm '', ''awmips '', ''awmips64 '', ''awx86 '', ''awx64 ''],
                 Some ''lr'', Some ''aw''))
   \<and> prefix ''aw'' ''awarm '' \<and> prefix ''aw'' ''awmips '' \<and> prefix ''aw'' ''awmips64 ''
   \<and> prefix ''aw'' ''awx86 '' \<and> prefix ''aw'' ''awx64 ''
   \<and> candidates example_env ''lo'' example_session = Inr (Some [''ad ''], ''lo'')
   \<and> complete example_env ''lo'' example_session = Inr ([], (Some [''ad ''], Some ''lo'', None))"
proof -
  let ?cs = "[''awarm '', ''awmips '', ''awmips64 '', ''awx86 '', ''awx64 '']"
  have c1: "candidates example_env ''lr'' example_session = Inr (Some ?cs, ''lr'')"
    by (simp add: candidates_def COMMANDS_ALPHA_def MAX_PRINT_COMPLETE_def startswith_def
        shlex_defs)
  have c2: "candidates example_env ''lo'' example_session = Inr (Some [''ad ''], ''lo'')"
    by (simp add: candidates_def COMMANDS_ALPHA_def MAX_PRINT_COMPLETE_def startswith_def
        shlex_defs)
  have x: "complete example_env ''lr'' example_session =
             Inr ([], (Some ?cs, Some ''lr'', Some ''aw''))"
    by (simp add: complete_defs shlex_defs)
  from complete_common_prefix [OF c1] obtain p where
    p: "complete example_env ''lr'' example_session = Inr ([], (Some ?cs, Some ''lr'', Some p))"
       "\<forall>c\<in>set ?cs. prefix p c"
    by auto
  from p(1) x have "p = ''aw''" by simp
  with p(2) have a: "\<forall>c\<in>set ?cs. prefix ''aw'' c" by simp
  have y: "complete example_env ''lo'' example_session = Inr ([], (Some [''ad ''], Some ''lo'', None))"
    using complete_common_prefix [OF c2] by simp
  from a have "prefix ''aw'' ''awarm ''" "prefix ''aw'' ''awmips ''" "prefix ''aw'' ''awmips64 ''"
    "prefix ''aw'' ''awx86 ''" "prefix ''aw'' ''awx64 ''"
    by simp_all
  with c1 x c2 y show ?thesis by blast
qed

end
